theory Spec2Isabelle
  imports Main
begin

section \<open>Dotcoin: a shallow embedding of the wallet, the miner and the validator\<close>

text \<open>
  The development follows three source files: \<^verbatim>\<open>core/common.mjs\<close> (key derivation,
  signing, the nonce search), \<^verbatim>\<open>core/client.mjs\<close> (balance, transaction builder, miner)
  and \<^verbatim>\<open>core/server.mjs\<close> (the validator: \<^verbatim>\<open>addTransaction\<close>, \<^verbatim>\<open>addBlock\<close>).
  Amounts are JavaScript numbers used as integers; they are modelled as \<open>int\<close>.
  Strings are \<open>string\<close>; a \<^verbatim>\<open>Uint8Array\<close> is a list of 8-bit characters.
\<close>

subsection \<open>Errors\<close>

type_synonym bytes = string

text \<open>One constructor per \<^verbatim>\<open>throw new ValidationError(...)\<close> of \<^verbatim>\<open>server.mjs\<close>, in source order.\<close>

datatype reason =
    SignatureCountMismatch
  | DuplicateInput string
  | MissingUtxo string
  | InvalidSignature string
  | DuplicateOutputAddress string
  | InvalidOutputAmount string
  | InsufficientInput int int
  | BadDifficulty
  | MissingPreviousBlock string
  | PreviousBlockMismatch string
  | MissingTransaction "string option"
  | InvalidTransactionObject
  | InvalidMerkleRoot
  | InvalidCoinbase

datatype client_reason = InsufficientFunds | InvalidTransactionAmount

text \<open>
  \<open>LibraryError\<close> is an exception thrown by a third-party call (\<^verbatim>\<open>@scure/base\<close>,
  \<^verbatim>\<open>@scure/bip32\<close>): it is neither a \<^verbatim>\<open>ValidationError\<close> nor a \<^verbatim>\<open>ClientError\<close>.
\<close>

datatype error = ValidationError reason | ClientError client_reason | LibraryError

definition thrown :: "'a option \<Rightarrow> error + 'a" where
  "thrown v = (case v of None \<Rightarrow> Inl LibraryError | Some x \<Rightarrow> Inr x)"

definition attempt :: "error + 'a \<Rightarrow> ('a \<Rightarrow> error + 'b) \<Rightarrow> error + 'b" where
  "attempt m f = (case m of Inl e \<Rightarrow> Inl e | Inr x \<Rightarrow> f x)"

text \<open>JavaScript truthiness of a value that is a string or \<^verbatim>\<open>null\<close>: \<^verbatim>\<open>if (utxo.txIn)\<close>.\<close>

definition truthy :: "string option \<Rightarrow> bool" where
  "truthy v = (case v of None \<Rightarrow> False | Some s \<Rightarrow> s \<noteq> [])"

subsection \<open>Data\<close>

record utxoOut =
  address :: string
  amount :: int

record utxo = utxoOut +
  block :: "string option"
  txIn :: "string option"

text \<open>
  \<open>tx_id\<close> is the field \<^verbatim>\<open>_id\<close>, \<open>tx_block\<close> the field \<^verbatim>\<open>block\<close>; \<open>None\<close> is
  \<^verbatim>\<open>null\<close> or a field not set yet. The coinbase built by \<^verbatim>\<open>mine\<close> has no
  \<^verbatim>\<open>signatures\<close> field; it is modelled with the empty list.
\<close>

record transaction =
  tx_id :: "string option"
  utxoIns :: "string list"
  utxoOuts :: "utxoOut list"
  signatures :: "string list"
  tx_block :: "string option"

record block =
  blk_id :: "string option"
  previous :: "string option"
  root :: string
  nonce :: "string option"

text \<open>An entry of \<^verbatim>\<open>addBlock\<close>'s third argument: an id, or an object carrying \<^verbatim>\<open>_id\<close>.\<close>

datatype txEntry = TxId string | TxObject transaction

subsection \<open>The ledger store\<close>

text \<open>
  \<^verbatim>\<open>database/database-read.mjs\<close> and \<^verbatim>\<open>database/database-write.mjs\<close> are not among the
  sources. The store is three collections; each operation below is the one named in the
  interface of the specification, section 6, and used by the client and the server.
\<close>

record store =
  utxos :: "utxo list"
  transactions :: "transaction list"
  blocks :: "block list"

text \<open>Modelled from the spec: \<^verbatim>\<open>getUtxo(address) -> UTXO|null\<close>, a point lookup by address.
  \<^verbatim>\<open>client.mjs\<close> reads \<^verbatim>\<open>txIn\<close> and \<^verbatim>\<open>block\<close> of the record it returns, so a spent
  record is returned like any other.\<close>

definition db_getUtxo :: "store \<Rightarrow> string \<Rightarrow> utxo option" where
  "db_getUtxo s a = find (\<lambda>u. address u = a) (utxos s)"

text \<open>Modelled from the spec: \<^verbatim>\<open>spend(txId, addresses) -> void\<close>, marks each UTXO's spender.\<close>

definition db_spendUtxos :: "string option \<Rightarrow> string list \<Rightarrow> store \<Rightarrow> store" where
  "db_spendUtxos txId addrs s =
     s\<lparr>utxos := map (\<lambda>u. if address u \<in> set addrs then u\<lparr>txIn := txId\<rparr> else u) (utxos s)\<rparr>"

text \<open>Modelled from the spec: \<^verbatim>\<open>addTransaction(tx) -> void\<close>; section 3: a UTXO is created
  when a transaction containing it as an output is accepted into the pool, or directly
  as a coinbase. The records carry the transaction's \<^verbatim>\<open>block\<close>.\<close>

definition db_addTransaction :: "transaction \<Rightarrow> store \<Rightarrow> store" where
  "db_addTransaction tx s =
     s\<lparr>transactions := transactions s @ [tx],
       utxos := utxos s @
         map (\<lambda>out. \<lparr>address = address out, amount = amount out,
                      block = tx_block tx, txIn = None\<rparr>) (utxoOuts tx)\<rparr>"

text \<open>Modelled from the spec: \<^verbatim>\<open>confirmTransactions(blockId, txIds) -> void\<close>; section 3:
  an output becomes confirmed when its owning transaction is attached to a block.\<close>

definition db_confirmTransactions :: "string option \<Rightarrow> string option list \<Rightarrow> store \<Rightarrow> store" where
  "db_confirmTransactions blockId txIds s =
     (let confirmed = filter (\<lambda>t. tx_id t \<in> set txIds) (transactions s);
          outs = concat (map (\<lambda>t. map address (utxoOuts t)) confirmed)
      in s\<lparr>transactions :=
              map (\<lambda>t. if tx_id t \<in> set txIds then t\<lparr>tx_block := blockId\<rparr> else t) (transactions s),
            utxos :=
              map (\<lambda>u. if address u \<in> set outs then u\<lparr>block := blockId\<rparr> else u) (utxos s)\<rparr>)"

text \<open>Modelled from the spec: \<^verbatim>\<open>addBlock(block) -> void\<close>.\<close>

definition db_addBlock :: "block \<Rightarrow> store \<Rightarrow> store" where
  "db_addBlock b s = s\<lparr>blocks := blocks s @ [b]\<rparr>"

text \<open>Modelled from the spec: \<^verbatim>\<open>getBlock(id) -> Block|null\<close>.\<close>

definition db_getBlock :: "store \<Rightarrow> string \<Rightarrow> block option" where
  "db_getBlock s i = find (\<lambda>b. blk_id b = Some i) (blocks s)"

text \<open>Modelled from the spec: \<^verbatim>\<open>getTransaction(id) -> Transaction|null\<close>; no stored
  transaction is keyed by \<^verbatim>\<open>null\<close>.\<close>

definition db_getTransaction :: "store \<Rightarrow> string option \<Rightarrow> transaction option" where
  "db_getTransaction s i =
     (case i of None \<Rightarrow> None | Some _ \<Rightarrow> find (\<lambda>t. tx_id t = i) (transactions s))"

text \<open>Modelled from the spec: the paged listings, \<^verbatim>\<open>sort\<close> 1 oldest first and -1 newest
  first (the argument \<open>dir\<close>), with the unconfirmed-only filter on transactions.\<close>

definition page_of :: "nat \<Rightarrow> nat \<Rightarrow> int \<Rightarrow> 'a list \<Rightarrow> 'a list" where
  "page_of page pageSize dir xs =
     take pageSize (drop (page * pageSize) (if dir = - 1 then rev xs else xs))"

definition db_getTransactions :: "store \<Rightarrow> nat \<Rightarrow> nat \<Rightarrow> int \<Rightarrow> bool \<Rightarrow> transaction list" where
  "db_getTransactions s page pageSize dir unconfirmed =
     page_of page pageSize dir
       (if unconfirmed then filter (\<lambda>t. tx_block t = None) (transactions s)
        else transactions s)"

definition db_getBlocks :: "store \<Rightarrow> nat \<Rightarrow> nat \<Rightarrow> int \<Rightarrow> block list" where
  "db_getBlocks s page pageSize dir = page_of page pageSize dir (blocks s)"

subsection \<open>Third-party calls and the hashing utilities\<close>

text \<open>
  The calls into \<^verbatim>\<open>@scure/bip39\<close>, \<^verbatim>\<open>@scure/bip32\<close> and \<^verbatim>\<open>@scure/base\<close> are parameters:
  \<open>'k\<close> is the library's \<^verbatim>\<open>HDKey\<close> object, and a call that can throw returns an option,
  \<open>None\<close> for the exception. \<open>derive\<close> takes the path as its components, each an index
  and whether it is hardened. \<^verbatim>\<open>utils/utils.mjs\<close> is not among the sources either.

  Modelled from the spec: \<^verbatim>\<open>transactionHash(tx) -> Hash\<close>, \<^verbatim>\<open>blockHash(block) -> Hash\<close> and
  \<^verbatim>\<open>merkleRoot(orderedHashes) -> Hash\<close> of the hashing collaborator are the last three
  fields; nothing is assumed of them unless a theorem says so.
\<close>

record 'k lib =
  mnemonicToSeed :: "string \<Rightarrow> bytes"
  fromMasterSeed :: "bytes \<Rightarrow> 'k option"
  derive :: "'k \<Rightarrow> (nat \<times> bool) list \<Rightarrow> 'k option"
  fromExtendedKey :: "string \<Rightarrow> 'k option"
  deriveChild :: "'k \<Rightarrow> nat \<Rightarrow> 'k option"
  hasPrivateKey :: "'k \<Rightarrow> bool"
  privateExtendedKey :: "'k \<Rightarrow> string option"
  publicExtendedKey :: "'k \<Rightarrow> string option"
  sign :: "'k \<Rightarrow> bytes \<Rightarrow> bytes option"
  verify :: "'k \<Rightarrow> bytes \<Rightarrow> bytes \<Rightarrow> bool option"
  base58_decode :: "string \<Rightarrow> bytes option"
  base58_encode :: "bytes \<Rightarrow> string"
  getTransactionHash :: "transaction \<Rightarrow> string"
  getBlockHash :: "block \<Rightarrow> string"
  getMerkleRoot :: "string option list \<Rightarrow> string"

subsection \<open>common.mjs\<close>

record keys =
  privateKey :: "string option"
  publicKey :: string

text \<open>\<^verbatim>\<open>root.derive(`m/44'/1'/${account}'/1`)\<close>: the receive branch is 1, the change branch 0.\<close>

definition getReceiveKeys :: "'k lib \<Rightarrow> string \<Rightarrow> nat \<Rightarrow> error + keys" where
  "getReceiveKeys L mnemonic account =
     attempt (thrown (fromMasterSeed L (mnemonicToSeed L mnemonic))) (\<lambda>root.
     attempt (thrown (derive L root [(44, True), (1, True), (account, True), (1, False)])) (\<lambda>receiveKey.
     attempt (thrown (privateExtendedKey L receiveKey)) (\<lambda>priv.
     attempt (thrown (publicExtendedKey L receiveKey)) (\<lambda>pub.
       Inr \<lparr>privateKey = Some priv, publicKey = pub\<rparr>))))"

definition getChangeKeys :: "'k lib \<Rightarrow> string \<Rightarrow> nat \<Rightarrow> error + keys" where
  "getChangeKeys L mnemonic account =
     attempt (thrown (fromMasterSeed L (mnemonicToSeed L mnemonic))) (\<lambda>root.
     attempt (thrown (derive L root [(44, True), (1, True), (account, True), (0, False)])) (\<lambda>changeKey.
     attempt (thrown (privateExtendedKey L changeKey)) (\<lambda>priv.
     attempt (thrown (publicExtendedKey L changeKey)) (\<lambda>pub.
       Inr \<lparr>privateKey = Some priv, publicKey = pub\<rparr>))))"

definition getChildKeys :: "'k lib \<Rightarrow> string \<Rightarrow> nat \<Rightarrow> error + keys" where
  "getChildKeys L key index =
     attempt (thrown (fromExtendedKey L key)) (\<lambda>parent.
     attempt (thrown (deriveChild L parent index)) (\<lambda>child.
       if hasPrivateKey L parent
       then attempt (thrown (privateExtendedKey L child)) (\<lambda>priv.
            attempt (thrown (publicExtendedKey L child)) (\<lambda>pub.
              Inr \<lparr>privateKey = Some priv, publicKey = pub\<rparr>))
       else attempt (thrown (publicExtendedKey L child)) (\<lambda>pub.
              Inr \<lparr>privateKey = None, publicKey = pub\<rparr>)))"

definition signHash :: "'k lib \<Rightarrow> string \<Rightarrow> string \<Rightarrow> error + string" where
  "signHash L hash priv =
     attempt (thrown (fromExtendedKey L priv)) (\<lambda>keyPair.
     attempt (thrown (base58_decode L hash)) (\<lambda>decodedHash.
     attempt (thrown (sign L keyPair decodedHash)) (\<lambda>signature.
       Inr (base58_encode L signature))))"

definition verifySignature :: "'k lib \<Rightarrow> string \<Rightarrow> string \<Rightarrow> string \<Rightarrow> error + bool" where
  "verifySignature L hash pub sig =
     attempt (thrown (base58_decode L hash)) (\<lambda>decodedHash.
     attempt (thrown (base58_decode L sig)) (\<lambda>decodedSig.
     attempt (thrown (fromExtendedKey L pub)) (\<lambda>keyPair.
       thrown (verify L keyPair decodedHash decodedSig))))"

text \<open>\<^verbatim>\<open>nonce.toString()\<close>: the decimal digits of the counter.\<close>

function toString :: "nat \<Rightarrow> string" where
  "toString n =
     (if n < 10 then [char_of (48 + n)] else toString (n div 10) @ [char_of (48 + n mod 10)])"
  by pat_completeness auto
termination
  by (relation "measure (\<lambda>n. n)") auto

declare toString.simps [simp del]

definition startsWith :: "string \<Rightarrow> string \<Rightarrow> bool" where
  "startsWith s p = (take (length p) s = p)"

text \<open>\<^verbatim>\<open>"1".repeat(difficulty)\<close>.\<close>

definition difficultyPrefix :: "nat \<Rightarrow> string" where
  "difficultyPrefix d = replicate d (CHR ''1'')"

text \<open>
  The \<^verbatim>\<open>while (true)\<close> of \<^verbatim>\<open>findNonce\<close>, from the counter's current value: the nonce is
  written into the block, the block is hashed, and the first hash with the prefix
  becomes the block's \<^verbatim>\<open>_id\<close>. A search that never succeeds is \<open>None\<close>.
\<close>

partial_function (option) findNonce_from :: "'k lib \<Rightarrow> block \<Rightarrow> string \<Rightarrow> nat \<Rightarrow> block option" where
  "findNonce_from L blk prefix n =
     (let blk1 = blk\<lparr>nonce := Some (base58_encode L (toString n))\<rparr>;
          blockId = getBlockHash L blk1
      in if startsWith blockId prefix then Some (blk1\<lparr>blk_id := Some blockId\<rparr>)
         else findNonce_from L blk1 prefix (n + 1))"

definition findNonce :: "'k lib \<Rightarrow> block \<Rightarrow> nat \<Rightarrow> block option" where
  "findNonce L blk difficulty = findNonce_from L blk (difficultyPrefix difficulty) 0"

subsection \<open>The constructors\<close>

text \<open>
  \<^verbatim>\<open>config.x || d\<close> for a number that may be missing: a missing or zero value gives the
  default. \<open>coinbaseAmount\<close> is the field \<^verbatim>\<open>this.amount\<close>.
\<close>

record config =
  cfg_mnemonic :: "string option"
  cfg_difficulty :: "nat option"
  cfg_limit :: "nat option"
  cfg_amount :: "int option"

definition orDefault :: "'a::zero option \<Rightarrow> 'a \<Rightarrow> 'a" where
  "orDefault v d = (case v of None \<Rightarrow> d | Some x \<Rightarrow> if x = 0 then d else x)"

record dotcoin =
  difficulty :: nat
  limit :: nat
  coinbaseAmount :: int

record client = dotcoin +
  mnemonic :: string

definition DotcoinServer :: "config \<Rightarrow> dotcoin" where
  "DotcoinServer cfg =
     \<lparr>difficulty = orDefault (cfg_difficulty cfg) 1,
      limit = orDefault (cfg_limit cfg) 1024,
      coinbaseAmount = orDefault (cfg_amount cfg) 100\<rparr>"

text \<open>\<open>generated\<close> is the result of \<^verbatim>\<open>common.createMnemonic()\<close>, a random phrase.\<close>

definition DotcoinClient :: "config \<Rightarrow> string \<Rightarrow> client" where
  "DotcoinClient cfg generated =
     \<lparr>difficulty = orDefault (cfg_difficulty cfg) 1,
      limit = orDefault (cfg_limit cfg) 1024,
      coinbaseAmount = orDefault (cfg_amount cfg) 100,
      mnemonic = (if truthy (cfg_mnemonic cfg) then the (cfg_mnemonic cfg) else generated)\<rparr>"

subsection \<open>server.mjs: addTransaction\<close>

text \<open>\<^verbatim>\<open>Array.prototype.indexOf\<close>, called in the source on an element of the array.\<close>

fun indexOf :: "'a list \<Rightarrow> 'a \<Rightarrow> nat" where
  "indexOf [] x = 0"
| "indexOf (y # ys) x = (if y = x then 0 else Suc (indexOf ys x))"

text \<open>
  The loop over \<^verbatim>\<open>txParams.utxoIns\<close>: duplicate check against \<^verbatim>\<open>seenInputs\<close>, lookup of
  the UTXO, and verification of the signature found by \<^verbatim>\<open>indexOf\<close> against the UTXO's
  address. The record's \<^verbatim>\<open>txIn\<close> is not read.
\<close>

fun checkInputs ::
  "'k lib \<Rightarrow> store \<Rightarrow> transaction \<Rightarrow> string \<Rightarrow> string set \<Rightarrow> string list \<Rightarrow> error + unit" where
  "checkInputs L db txParams txHash seenInputs [] = Inr ()"
| "checkInputs L db txParams txHash seenInputs (utxoIn # rest) =
     (if utxoIn \<in> seenInputs then Inl (ValidationError (DuplicateInput utxoIn))
      else case db_getUtxo db utxoIn of
        None \<Rightarrow> Inl (ValidationError (MissingUtxo utxoIn))
      | Some u \<Rightarrow>
          (case verifySignature L txHash (address u)
                  (signatures txParams ! indexOf (utxoIns txParams) utxoIn) of
             Inl e \<Rightarrow> Inl e
           | Inr isValid \<Rightarrow>
               if \<not> isValid then Inl (ValidationError (InvalidSignature utxoIn))
               else checkInputs L db txParams txHash (insert utxoIn seenInputs) rest))"

text \<open>The loop over \<^verbatim>\<open>txParams.utxoOuts\<close>; \<^verbatim>\<open>!amount || amount <= 0\<close> on an integer.\<close>

fun checkOutputs :: "string set \<Rightarrow> utxoOut list \<Rightarrow> error + unit" where
  "checkOutputs addresses [] = Inr ()"
| "checkOutputs addresses (utxoOut # rest) =
     (if address utxoOut \<in> addresses
      then Inl (ValidationError (DuplicateOutputAddress (address utxoOut)))
      else if amount utxoOut = 0 \<or> amount utxoOut \<le> 0
      then Inl (ValidationError (InvalidOutputAmount (address utxoOut)))
      else checkOutputs (insert (address utxoOut) addresses) rest)"

definition totalInput :: "store \<Rightarrow> string list \<Rightarrow> int" where
  "totalInput db ins =
     sum_list (map (\<lambda>utxoIn. case db_getUtxo db utxoIn of None \<Rightarrow> 0 | Some u \<Rightarrow> amount u) ins)"

definition totalOutput :: "utxoOut list \<Rightarrow> int" where
  "totalOutput outs = sum_list (map amount outs)"

text \<open>The loop that marks the inputs spent, one \<^verbatim>\<open>spendUtxos\<close> call per input.\<close>

definition spendInputs :: "string option \<Rightarrow> string list \<Rightarrow> store \<Rightarrow> store" where
  "spendInputs txId ins db = foldl (\<lambda>s inputAddress. db_spendUtxos txId [inputAddress] s) db ins"

definition addTransaction :: "'k lib \<Rightarrow> store \<Rightarrow> transaction \<Rightarrow> error + store" where
  "addTransaction L db txParams =
     (if length (utxoIns txParams) \<noteq> length (signatures txParams)
      then Inl (ValidationError SignatureCountMismatch)
      else
        attempt (checkInputs L db txParams (getTransactionHash L (txParams\<lparr>signatures := []\<rparr>))
                   {} (utxoIns txParams)) (\<lambda>_.
        attempt (checkOutputs {} (utxoOuts txParams)) (\<lambda>_.
          if totalInput db (utxoIns txParams) < totalOutput (utxoOuts txParams)
          then Inl (ValidationError (InsufficientInput (totalInput db (utxoIns txParams))
                                       (totalOutput (utxoOuts txParams))))
          else Inr (db_addTransaction (txParams\<lparr>tx_block := None\<rparr>)
                      (spendInputs (tx_id txParams) (utxoIns txParams) db)))))"

subsection \<open>server.mjs: addBlock\<close>

definition entryId :: "txEntry \<Rightarrow> string option" where
  "entryId txEntry = (case txEntry of TxId i \<Rightarrow> Some i | TxObject t \<Rightarrow> tx_id t)"

definition checkPrevious :: "store \<Rightarrow> block \<Rightarrow> error + unit" where
  "checkPrevious db blk =
     (case previous blk of
        None \<Rightarrow> Inr ()
      | Some p \<Rightarrow>
          if p = [] then Inr ()
          else (case db_getBlock db p of
                  None \<Rightarrow> Inl (ValidationError (MissingPreviousBlock p))
                | Some previousBlock \<Rightarrow>
                    if blk_id previousBlock \<noteq> Some p
                    then Inl (ValidationError (PreviousBlockMismatch p))
                    else Inr ()))"

text \<open>The loop that resolves the references, stopping at the first one the store lacks.\<close>

fun fetchTxs :: "store \<Rightarrow> txEntry list \<Rightarrow> error + transaction list" where
  "fetchTxs db [] = Inr []"
| "fetchTxs db (txEntry # rest) =
     (case db_getTransaction db (entryId txEntry) of
        None \<Rightarrow> Inl (ValidationError (MissingTransaction (entryId txEntry)))
      | Some tx \<Rightarrow>
          (case fetchTxs db rest of Inl e \<Rightarrow> Inl e | Inr fetched \<Rightarrow> Inr (tx # fetched)))"

text \<open>
  A stored transaction always has the field \<^verbatim>\<open>utxoIns\<close>, so the source's
  \<^verbatim>\<open>Invalid transaction object\<close> branch is not reachable in the model. The source does
  not read \<^verbatim>\<open>this.limit\<close> anywhere.
\<close>

definition addBlock ::
  "'k lib \<Rightarrow> dotcoin \<Rightarrow> store \<Rightarrow> block \<Rightarrow> transaction \<Rightarrow> txEntry list \<Rightarrow> error + store" where
  "addBlock L srv db blk coinbase txs =
     (let blockHash = getBlockHash L blk in
      if \<not> startsWith blockHash (difficultyPrefix (difficulty srv))
      then Inl (ValidationError BadDifficulty)
      else
        attempt (checkPrevious db blk) (\<lambda>_.
        attempt (fetchTxs db txs) (\<lambda>fetchedTxs.
          let txHashes = map (getTransactionHash L) fetchedTxs;
              coinbaseHash = getTransactionHash L coinbase
          in if root blk \<noteq> getMerkleRoot L (map Some (coinbaseHash # txHashes))
             then Inl (ValidationError InvalidMerkleRoot)
             else if length (utxoIns coinbase) > 0 \<or> length (utxoOuts coinbase) \<noteq> 1 \<or>
                     amount (utxoOuts coinbase ! 0) \<noteq> coinbaseAmount srv
             then Inl (ValidationError InvalidCoinbase)
             else Inr (db_addTransaction (coinbase\<lparr>tx_block := Some blockHash\<rparr>)
                        (db_confirmTransactions (Some blockHash) (map entryId txs)
                          (db_addBlock (blk\<lparr>blk_id := Some blockHash\<rparr>) db))))))"

subsection \<open>client.mjs: getBalance\<close>

record addresses =
  receiveAddress :: string
  changeAddress :: string

text \<open>
  The four derivations that open each round of the loops of \<^verbatim>\<open>getBalance\<close> and
  \<^verbatim>\<open>createTransaction\<close>: both parent keys from the mnemonic, then the child of each at
  \<^verbatim>\<open>childIndex\<close>.
\<close>

definition deriveAddresses :: "'k lib \<Rightarrow> client \<Rightarrow> nat \<Rightarrow> nat \<Rightarrow> error + addresses" where
  "deriveAddresses L c account childIndex =
     attempt (getReceiveKeys L (mnemonic c) account) (\<lambda>receiveParent.
     attempt (getChangeKeys L (mnemonic c) account) (\<lambda>changeParent.
     attempt (getChildKeys L (publicKey receiveParent) childIndex) (\<lambda>r.
     attempt (getChildKeys L (publicKey changeParent) childIndex) (\<lambda>ch.
       Inr \<lparr>receiveAddress = publicKey r, changeAddress = publicKey ch\<rparr>))))"

text \<open>\<^verbatim>\<open>Array.isArray(x) ? x : x ? [x] : []\<close> for the record or \<^verbatim>\<open>null\<close> that \<^verbatim>\<open>getUtxo\<close> returns.\<close>

definition toArray :: "'a option \<Rightarrow> 'a list" where
  "toArray x = (case x of None \<Rightarrow> [] | Some u \<Rightarrow> [u])"

record balance =
  usable :: int
  pending :: int

text \<open>The \<^verbatim>\<open>for\<close> loop over \<^verbatim>\<open>allUtxos\<close> in \<^verbatim>\<open>getBalance\<close>.\<close>

fun tally :: "utxo list \<Rightarrow> balance \<Rightarrow> balance" where
  "tally [] b = b"
| "tally (u # us) b =
     (if truthy (txIn u) then tally us b
      else if truthy (block u) then tally us (b\<lparr>usable := usable b + amount u\<rparr>)
      else tally us (b\<lparr>pending := pending b + amount u\<rparr>))"

partial_function (option) getBalance_from ::
  "'k lib \<Rightarrow> client \<Rightarrow> store \<Rightarrow> nat \<Rightarrow> balance \<Rightarrow> nat \<Rightarrow> (error + balance) option" where
  "getBalance_from L c db account totals childIndex =
     (case deriveAddresses L c account childIndex of
        Inl e \<Rightarrow> Some (Inl e)
      | Inr a \<Rightarrow>
          if db_getUtxo db (receiveAddress a) = None \<and> db_getUtxo db (changeAddress a) = None
          then Some (Inr totals)
          else getBalance_from L c db account
                 (tally (toArray (db_getUtxo db (receiveAddress a)) @
                         toArray (db_getUtxo db (changeAddress a))) totals)
                 (childIndex + 1))"


subsection \<open>client.mjs: next unused address\<close>

text \<open>
  The \<^verbatim>\<open>while (true)\<close> loop that \<^verbatim>\<open>createTransaction\<close> runs for the change address and
  for the recipient address, and \<^verbatim>\<open>mine\<close> for the reward address: derive the child at
  the index, ask the store, return the address when the store has no record, otherwise
  go to the next index. The three loops differ in the names of their variables only.
  A scan that never finds a free index is \<open>None\<close>.
\<close>

partial_function (option) nextUnused_from ::
  "'k lib \<Rightarrow> store \<Rightarrow> string \<Rightarrow> nat \<Rightarrow> (error + string) option" where
  "nextUnused_from L db parentKey childIndex =
     (case getChildKeys L parentKey childIndex of
        Inl e \<Rightarrow> Some (Inl e)
      | Inr derived \<Rightarrow>
          (case db_getUtxo db (publicKey derived) of
             None \<Rightarrow> Some (Inr (publicKey derived))
           | Some u \<Rightarrow> nextUnused_from L db parentKey (childIndex + 1)))"

definition nextUnused :: "'k lib \<Rightarrow> store \<Rightarrow> string \<Rightarrow> (error + string) option" where
  "nextUnused L db parentKey = nextUnused_from L db parentKey 0"

subsection \<open>client.mjs: createTransaction\<close>

text \<open>Sequencing of steps that may throw (\<open>Some (Inl e)\<close>) or not return (\<open>None\<close>).\<close>

definition andThen :: "(error + 'a) option \<Rightarrow> ('a \<Rightarrow> (error + 'b) option) \<Rightarrow> (error + 'b) option" where
  "andThen m f = (case m of None \<Rightarrow> None | Some (Inl e) \<Rightarrow> Some (Inl e) | Some (Inr x) \<Rightarrow> f x)"

datatype chain = Receive | Change

text \<open>An entry of \<^verbatim>\<open>selectedUtxos\<close>: \<^verbatim>\<open>{ ...utxo, childIndex, type }\<close>.\<close>

record selectedUtxo =
  selected :: utxo
  childIndex :: nat
  chainType :: chain

text \<open>The loop state: \<^verbatim>\<open>total\<close>, \<^verbatim>\<open>selectedUtxos\<close> and \<^verbatim>\<open>tx.utxoIns\<close>.\<close>

record selection =
  total :: int
  selectedUtxos :: "selectedUtxo list"
  ins :: "string list"

text \<open>The \<^verbatim>\<open>for\<close> loop over \<^verbatim>\<open>allUtxos\<close> in \<^verbatim>\<open>createTransaction\<close>, with its two
  \<^verbatim>\<open>continue\<close>s and its \<^verbatim>\<open>break\<close>.\<close>

fun pick :: "int \<Rightarrow> string \<Rightarrow> nat \<Rightarrow> utxo list \<Rightarrow> selection \<Rightarrow> selection" where
  "pick amt receiveAddr idx [] st = st"
| "pick amt receiveAddr idx (u # us) st =
     (if truthy (txIn u) then pick amt receiveAddr idx us st
      else if \<not> truthy (block u) then pick amt receiveAddr idx us st
      else if total st \<ge> amt then st
      else pick amt receiveAddr idx us
             \<lparr>total = total st + amount u,
              selectedUtxos = selectedUtxos st @
                [\<lparr>selected = u, childIndex = idx,
                  chainType = (if address u = receiveAddr then Receive else Change)\<rparr>],
              ins = ins st @ [address u]\<rparr>)"

text \<open>The \<^verbatim>\<open>while (total < amount)\<close> loop, from the current \<^verbatim>\<open>childIndex\<close>.\<close>

partial_function (option) selectUtxos_from ::
  "'k lib \<Rightarrow> client \<Rightarrow> store \<Rightarrow> nat \<Rightarrow> int \<Rightarrow> selection \<Rightarrow> nat \<Rightarrow> (error + selection) option" where
  "selectUtxos_from L c db account amt st idx =
     (if \<not> total st < amt then Some (Inr st)
      else case deriveAddresses L c account idx of
        Inl e \<Rightarrow> Some (Inl e)
      | Inr a \<Rightarrow>
          if toArray (db_getUtxo db (receiveAddress a)) @
             toArray (db_getUtxo db (changeAddress a)) = [] \<and> idx > 0
          then Some (Inr st)
          else selectUtxos_from L c db account amt
                 (pick amt (receiveAddress a) idx
                    (toArray (db_getUtxo db (receiveAddress a)) @
                     toArray (db_getUtxo db (changeAddress a))) st)
                 (idx + 1))"

text \<open>One round of the signing loop: the parent private key of the entry's chain, its
  child at the entry's index, and the signature of the hash with the child's private
  key. A missing private key reaches \<^verbatim>\<open>HDKey.fromExtendedKey(undefined)\<close>, which throws.\<close>

definition signInput :: "'k lib \<Rightarrow> client \<Rightarrow> nat \<Rightarrow> string \<Rightarrow> selectedUtxo \<Rightarrow> error + string" where
  "signInput L c account txHash utxoObj =
     attempt (if chainType utxoObj = Receive then getReceiveKeys L (mnemonic c) account
              else getChangeKeys L (mnemonic c) account) (\<lambda>parent.
     attempt (thrown (privateKey parent)) (\<lambda>parentPrivateKey.
     attempt (getChildKeys L parentPrivateKey (childIndex utxoObj)) (\<lambda>keyPair.
     attempt (thrown (privateKey keyPair)) (\<lambda>priv.
       signHash L txHash priv))))"

fun signInputs :: "'k lib \<Rightarrow> client \<Rightarrow> nat \<Rightarrow> string \<Rightarrow> selectedUtxo list \<Rightarrow> error + string list" where
  "signInputs L c account txHash [] = Inr []"
| "signInputs L c account txHash (utxoObj # rest) =
     (case signInput L c account txHash utxoObj of
        Inl e \<Rightarrow> Inl e
      | Inr signature \<Rightarrow>
          (case signInputs L c account txHash rest of
             Inl e \<Rightarrow> Inl e
           | Inr sigs \<Rightarrow> Inr (signature # sigs)))"

text \<open>The change address: looked for only when \<^verbatim>\<open>change > 0\<close>, otherwise left undefined.\<close>

definition changeAddressFor ::
  "'k lib \<Rightarrow> client \<Rightarrow> store \<Rightarrow> nat \<Rightarrow> int \<Rightarrow> (error + string option) option" where
  "changeAddressFor L c db account change =
     (if change > 0
      then andThen (Some (getChangeKeys L (mnemonic c) account)) (\<lambda>changeParent.
           andThen (nextUnused L db (publicKey changeParent)) (\<lambda>a. Some (Inr (Some a))))
      else Some (Inr None))"

text \<open>From the outputs on: the unsigned transaction is hashed, every selected input is
  signed in order, and the id is the hash of the signed transaction.\<close>

definition buildTransaction ::
  "'k lib \<Rightarrow> client \<Rightarrow> nat \<Rightarrow> selection \<Rightarrow> utxoOut list \<Rightarrow> error + transaction" where
  "buildTransaction L c account sel outs =
     (let tx = \<lparr>tx_id = None, utxoIns = ins sel, utxoOuts = outs, signatures = [],
                tx_block = None\<rparr>;
          txHash = getTransactionHash L tx
      in attempt (signInputs L c account txHash (selectedUtxos sel)) (\<lambda>sigs.
           Inr (tx\<lparr>signatures := sigs,
                   tx_id := Some (getTransactionHash L (tx\<lparr>signatures := sigs\<rparr>))\<rparr>)))"

definition createTransaction ::
  "'k lib \<Rightarrow> client \<Rightarrow> store \<Rightarrow> nat \<Rightarrow> string \<Rightarrow> int \<Rightarrow> (error + transaction) option" where
  "createTransaction L c db account addr amt =
     andThen (selectUtxos_from L c db account amt \<lparr>total = 0, selectedUtxos = [], ins = []\<rparr> 0)
       (\<lambda>sel.
         if total sel < amt then Some (Inl (ClientError InsufficientFunds))
         else if total sel - amt < 0 then Some (Inl (ClientError InvalidTransactionAmount))
         else
           andThen (changeAddressFor L c db account (total sel - amt)) (\<lambda>changeAddressForOutput.
           andThen (nextUnused L db addr) (\<lambda>recipientAddress.
             Some (buildTransaction L c account sel
                     (\<lparr>address = recipientAddress, amount = amt\<rparr> #
                      (case changeAddressForOutput of
                         None \<Rightarrow> []
                       | Some a \<Rightarrow> [\<lparr>address = a, amount = total sel - amt\<rparr>]))))))"

subsection \<open>client.mjs: mine\<close>

record mined =
  minedBlock :: block
  minedCoinbase :: transaction
  minedTransactions :: "string option list"

text \<open>
  The pool is read with \<^verbatim>\<open>getTransactions(0, 100, 1, true)\<close>: the page size is the
  literal 100, and \<^verbatim>\<open>this.limit\<close> is not read. The loop that sets \<^verbatim>\<open>tx.block\<close> on the
  listed transactions changes local copies whose ids alone are returned.
\<close>

text \<open>The coinbase: zero inputs, one output of \<^verbatim>\<open>this.amount\<close> to the reward address, and
  as \<^verbatim>\<open>_id\<close> the hash of the transaction while its \<^verbatim>\<open>_id\<close> is still \<^verbatim>\<open>null\<close>.\<close>

definition newCoinbase :: "'k lib \<Rightarrow> client \<Rightarrow> string \<Rightarrow> transaction" where
  "newCoinbase L c pub =
     (let coinbase = \<lparr>tx_id = None, utxoIns = [],
                       utxoOuts = [\<lparr>address = pub, amount = coinbaseAmount c\<rparr>],
                       signatures = [], tx_block = None\<rparr>
      in coinbase\<lparr>tx_id := Some (getTransactionHash L coinbase)\<rparr>)"

definition unconfirmedTxs :: "store \<Rightarrow> transaction list" where
  "unconfirmedTxs db = db_getTransactions db 0 100 1 True"

text \<open>The candidate: the previous block is the newest stored one, the root is the Merkle
  root of the \<^verbatim>\<open>_id\<close>s of \<^verbatim>\<open>[coinbase, ...unconfirmedTxs]\<close>.\<close>

definition blockCandidate :: "'k lib \<Rightarrow> store \<Rightarrow> transaction \<Rightarrow> block" where
  "blockCandidate L db coinbase =
     (let transactionsToMine = coinbase # unconfirmedTxs db;
          lastBlocks = db_getBlocks db 0 1 (- 1);
          txIds = map tx_id transactionsToMine
      in \<lparr>blk_id = None,
          previous = (case lastBlocks of [] \<Rightarrow> None | lastBlock # _ \<Rightarrow> blk_id lastBlock),
          root = getMerkleRoot L txIds, nonce = None\<rparr>)"

definition mine :: "'k lib \<Rightarrow> client \<Rightarrow> store \<Rightarrow> nat \<Rightarrow> (error + mined) option" where
  "mine L c db account =
     andThen (Some (getReceiveKeys L (mnemonic c) account)) (\<lambda>parent.
     andThen (nextUnused L db (publicKey parent)) (\<lambda>pub.
       case findNonce L (blockCandidate L db (newCoinbase L c pub)) (difficulty c) of
         None \<Rightarrow> None
       | Some found \<Rightarrow>
           Some (Inr \<lparr>minedBlock = found\<lparr>blk_id := Some (getBlockHash L found)\<rparr>,
                      minedCoinbase = newCoinbase L c pub,
                      minedTransactions = map tx_id (unconfirmedTxs db)\<rparr>)))"

declare findNonce_from.simps [code]
declare getBalance_from.simps [code]
declare nextUnused_from.simps [code]
declare selectUtxos_from.simps [code]

subsection \<open>A small instance of the libraries, for concrete runs\<close>

text \<open>
  A stand-in for the third-party calls, small enough to evaluate. A key object is a pair:
  whether it holds a private key, and the name of its derivation path: the mnemonic,
  then \<open>p\<close> and the account in unary, then \<open>p\<close> and the branch in unary; a child adds
  \<open>c\<close> and its index in unary (the purpose and coin type of the path are not read). An extended
  private key is the name after \<open>S\<close>, an extended public key the name after \<open>P\<close>; any
  other string is rejected by \<open>fromExtendedKey\<close>. A signature is the message followed by
  \<open>x\<close> and the signer's name. Decoding rejects every string with a character outside
  the base58 alphabet (which has no \<open>0\<close>, \<open>O\<close>, \<open>I\<close> or \<open>l\<close>), as \<^verbatim>\<open>@scure/base\<close> does.
  The transaction hash reads the inputs, the output addresses and the tail of each
  signature; the Merkle root reads a window of each id; the block hash is the root
  after \<open>11\<close> for the nonce \<open>2\<close>, after \<open>1z\<close> for the nonce \<open>1\<close>, after \<open>z\<close> otherwise.
\<close>

definition base58_alphabet :: string where
  "base58_alphabet = ''123456789ABCDEFGHJKLMNPQRSTUVWXYZabcdefghijkmnopqrstuvwxyz''"

definition demo_index :: "nat \<Rightarrow> string" where
  "demo_index i = replicate i (CHR ''i'')"

definition demo_lib :: "(bool \<times> string) lib" where
  "demo_lib =
     \<lparr>mnemonicToSeed = (\<lambda>m. m),
      fromMasterSeed = (\<lambda>seed. Some (True, seed)),
      derive = (\<lambda>k path. Some (fst k, snd k @
                 concat (map (\<lambda>p. CHR ''p'' # demo_index (fst p)) (drop 2 path)))),
      fromExtendedKey =
        (\<lambda>s. case s of
               [] \<Rightarrow> None
             | c # n \<Rightarrow> if c = CHR ''S'' then Some (True, n)
                        else if c = CHR ''P'' then Some (False, n) else None),
      deriveChild = (\<lambda>k i. Some (fst k, snd k @ CHR ''c'' # demo_index i)),
      hasPrivateKey = fst,
      privateExtendedKey = (\<lambda>k. if fst k then Some (CHR ''S'' # snd k) else None),
      publicExtendedKey = (\<lambda>k. Some (CHR ''P'' # snd k)),
      sign = (\<lambda>k h. if fst k then Some (h @ CHR ''x'' # snd k) else None),
      verify = (\<lambda>k h s. Some (s = h @ CHR ''x'' # snd k)),
      base58_decode =
        (\<lambda>s. if list_all (\<lambda>c. c \<in> set base58_alphabet) s then Some s else None),
      base58_encode = (\<lambda>b. b),
      getTransactionHash =
        (\<lambda>t. CHR ''T'' # concat (utxoIns t) @ CHR ''o'' # concat (map address (utxoOuts t)) @
               CHR ''s'' # concat (map (\<lambda>s. take 6 (rev s)) (signatures t))),
      getBlockHash =
        (\<lambda>b. (case nonce b of
                 None \<Rightarrow> ''z''
               | Some n \<Rightarrow> if n = ''2'' then ''11'' else if n = ''1'' then ''1z'' else ''z'') @
              root b),
      getMerkleRoot =
        (\<lambda>hs. concat (map (\<lambda>h. case h of None \<Rightarrow> ''n''
                                     | Some x \<Rightarrow> CHR ''m'' # take 10 (drop 3 x)) hs))\<rparr>"

text \<open>A server and a client with difficulty 2, block limit 2 and reward 100.\<close>

definition demo_server :: dotcoin where
  "demo_server =
     DotcoinServer \<lparr>cfg_mnemonic = None, cfg_difficulty = Some 2, cfg_limit = Some 2,
                    cfg_amount = Some 100\<rparr>"

definition demo_client :: client where
  "demo_client =
     DotcoinClient \<lparr>cfg_mnemonic = Some ''w'', cfg_difficulty = Some 2, cfg_limit = Some 2,
                    cfg_amount = Some 100\<rparr> ''generated''"

text \<open>The ledger before the first block, and the first block as \<^verbatim>\<open>mine\<close> builds it for
  account 0 of the client: its candidate, its coinbase and the sealed block.\<close>

definition empty_store :: store where
  "empty_store = \<lparr>utxos = [], transactions = [], blocks = []\<rparr>"

definition demo_candidate :: block where
  "demo_candidate =
     \<lparr>blk_id = None, previous = None, root = ''mwppics'', nonce = None\<rparr>"

definition demo_coinbase :: transaction where
  "demo_coinbase =
     \<lparr>tx_id = Some ''ToPwppics'', utxoIns = [],
      utxoOuts = [\<lparr>address = ''Pwppic'', amount = 100\<rparr>], signatures = [],
      tx_block = None\<rparr>"

definition demo_block :: block where
  "demo_block =
     \<lparr>blk_id = Some ''11mwppics'', previous = None, root = ''mwppics'',
      nonce = Some ''2''\<rparr>"

text \<open>
  The ledger after the first block; a payment of 60 built by \<^verbatim>\<open>createTransaction\<close> on
  it; the ledger once the payment is pooled; a second payment, of 70, built on the
  ledger as it was before the first payment, so that it names the same input; the
  ledger once both are pooled; and the second block as \<^verbatim>\<open>mine\<close> builds it over the
  first payment.
\<close>

definition demo_store1 :: store where
  "demo_store1 =
     \<lparr>utxos = [\<lparr>address = ''Pwppic'', amount = 100, block = Some ''11mwppics'', txIn = None\<rparr>],
      transactions = [demo_coinbase\<lparr>tx_block := Some ''11mwppics''\<rparr>],
      blocks = [demo_block]\<rparr>"

definition demo_tx1 :: transaction where
  "demo_tx1 =
     \<lparr>tx_id = Some ''TPwppicoPrcPwppcscippwx'', utxoIns = [''Pwppic''],
      utxoOuts = [\<lparr>address = ''Prc'', amount = 60\<rparr>, \<lparr>address = ''Pwppc'', amount = 40\<rparr>],
      signatures = [''TPwppicoPrcPwppcsxwppic''], tx_block = None\<rparr>"

definition demo_store2 :: store where
  "demo_store2 =
     \<lparr>utxos = [\<lparr>address = ''Pwppic'', amount = 100, block = Some ''11mwppics'',
                 txIn = Some ''TPwppicoPrcPwppcscippwx''\<rparr>,
               \<lparr>address = ''Prc'', amount = 60, block = None, txIn = None\<rparr>,
               \<lparr>address = ''Pwppc'', amount = 40, block = None, txIn = None\<rparr>],
      transactions = [demo_coinbase\<lparr>tx_block := Some ''11mwppics''\<rparr>, demo_tx1],
      blocks = [demo_block]\<rparr>"

definition demo_tx2 :: transaction where
  "demo_tx2 =
     \<lparr>tx_id = Some ''TPwppicoPqcPwppcscippwx'', utxoIns = [''Pwppic''],
      utxoOuts = [\<lparr>address = ''Pqc'', amount = 70\<rparr>, \<lparr>address = ''Pwppc'', amount = 30\<rparr>],
      signatures = [''TPwppicoPqcPwppcsxwppic''], tx_block = None\<rparr>"

definition demo_store3 :: store where
  "demo_store3 =
     \<lparr>utxos = [\<lparr>address = ''Pwppic'', amount = 100, block = Some ''11mwppics'',
                 txIn = Some ''TPwppicoPqcPwppcscippwx''\<rparr>,
               \<lparr>address = ''Prc'', amount = 60, block = None, txIn = None\<rparr>,
               \<lparr>address = ''Pwppc'', amount = 40, block = None, txIn = None\<rparr>,
               \<lparr>address = ''Pqc'', amount = 70, block = None, txIn = None\<rparr>,
               \<lparr>address = ''Pwppc'', amount = 30, block = None, txIn = None\<rparr>],
      transactions = [demo_coinbase\<lparr>tx_block := Some ''11mwppics''\<rparr>, demo_tx1, demo_tx2],
      blocks = [demo_block]\<rparr>"

definition demo_coinbase2 :: transaction where
  "demo_coinbase2 =
     \<lparr>tx_id = Some ''ToPwppicis'', utxoIns = [],
      utxoOuts = [\<lparr>address = ''Pwppici'', amount = 100\<rparr>], signatures = [],
      tx_block = None\<rparr>"

definition demo_block2 :: block where
  "demo_block2 =
     \<lparr>blk_id = Some ''11mwppicismppicoPrcPw'', previous = Some ''11mwppics'',
      root = ''mwppicismppicoPrcPw'', nonce = Some ''2''\<rparr>"

text \<open>
  A run with no input spent twice, for a client and a server whose block limit is 2.
  The second block is mined over an empty pool, which gives account 0 a second
  confirmed coin; a payment of 60 (the transaction \<open>demo_tx1\<close> again) spends the first
  coin, a payment of 70 the second; both are pooled; and the third block is mined over
  that pool.
\<close>

definition demo_second_block :: block where
  "demo_second_block =
     \<lparr>blk_id = Some ''11mwppicis'', previous = Some ''11mwppics'', root = ''mwppicis'',
      nonce = Some ''2''\<rparr>"

definition demo_two_coins :: store where
  "demo_two_coins =
     \<lparr>utxos = [\<lparr>address = ''Pwppic'', amount = 100, block = Some ''11mwppics'', txIn = None\<rparr>,
               \<lparr>address = ''Pwppici'', amount = 100, block = Some ''11mwppicis'',
                 txIn = None\<rparr>],
      transactions = [demo_coinbase\<lparr>tx_block := Some ''11mwppics''\<rparr>,
                      demo_coinbase2\<lparr>tx_block := Some ''11mwppicis''\<rparr>],
      blocks = [demo_block, demo_second_block]\<rparr>"

definition demo_one_pooled :: store where
  "demo_one_pooled =
     \<lparr>utxos = [\<lparr>address = ''Pwppic'', amount = 100, block = Some ''11mwppics'',
                 txIn = Some ''TPwppicoPrcPwppcscippwx''\<rparr>,
               \<lparr>address = ''Pwppici'', amount = 100, block = Some ''11mwppicis'',
                 txIn = None\<rparr>,
               \<lparr>address = ''Prc'', amount = 60, block = None, txIn = None\<rparr>,
               \<lparr>address = ''Pwppc'', amount = 40, block = None, txIn = None\<rparr>],
      transactions = [demo_coinbase\<lparr>tx_block := Some ''11mwppics''\<rparr>,
                      demo_coinbase2\<lparr>tx_block := Some ''11mwppicis''\<rparr>, demo_tx1],
      blocks = [demo_block, demo_second_block]\<rparr>"

definition demo_tx3 :: transaction where
  "demo_tx3 =
     \<lparr>tx_id = Some ''TPwppicioPqcPwppcisicippw'', utxoIns = [''Pwppici''],
      utxoOuts = [\<lparr>address = ''Pqc'', amount = 70\<rparr>, \<lparr>address = ''Pwppci'', amount = 30\<rparr>],
      signatures = [''TPwppicioPqcPwppcisxwppici''], tx_block = None\<rparr>"

definition demo_two_pooled :: store where
  "demo_two_pooled =
     \<lparr>utxos = [\<lparr>address = ''Pwppic'', amount = 100, block = Some ''11mwppics'',
                 txIn = Some ''TPwppicoPrcPwppcscippwx''\<rparr>,
               \<lparr>address = ''Pwppici'', amount = 100, block = Some ''11mwppicis'',
                 txIn = Some ''TPwppicioPqcPwppcisicippw''\<rparr>,
               \<lparr>address = ''Prc'', amount = 60, block = None, txIn = None\<rparr>,
               \<lparr>address = ''Pwppc'', amount = 40, block = None, txIn = None\<rparr>,
               \<lparr>address = ''Pqc'', amount = 70, block = None, txIn = None\<rparr>,
               \<lparr>address = ''Pwppci'', amount = 30, block = None, txIn = None\<rparr>],
      transactions = [demo_coinbase\<lparr>tx_block := Some ''11mwppics''\<rparr>,
                      demo_coinbase2\<lparr>tx_block := Some ''11mwppicis''\<rparr>, demo_tx1, demo_tx3],
      blocks = [demo_block, demo_second_block]\<rparr>"

definition demo_coinbase3 :: transaction where
  "demo_coinbase3 =
     \<lparr>tx_id = Some ''ToPwppiciis'', utxoIns = [],
      utxoOuts = [\<lparr>address = ''Pwppicii'', amount = 100\<rparr>], signatures = [],
      tx_block = None\<rparr>"

definition demo_full_block :: block where
  "demo_full_block =
     \<lparr>blk_id = Some ''11mwppiciismppicoPrcPwmppicioPqcP'', previous = Some ''11mwppicis'',
      root = ''mwppiciismppicoPrcPwmppicioPqcP'', nonce = Some ''2''\<rparr>"

subsection \<open>Notions used in the statements\<close>

text \<open>The hash \<^verbatim>\<open>findNonce\<close> computes in the round whose counter is \<open>n\<close>.\<close>

definition hashAt :: "'k lib \<Rightarrow> block \<Rightarrow> nat \<Rightarrow> string" where
  "hashAt L blk n = getBlockHash L (blk\<lparr>nonce := Some (base58_encode L (toString n))\<rparr>)"

text \<open>A call that returns normally, without throwing.\<close>

definition accepted :: "error + 'a \<Rightarrow> bool" where
  "accepted r = (case r of Inl e \<Rightarrow> False | Inr x \<Rightarrow> True)"

text \<open>The checks of \<^verbatim>\<open>addTransaction\<close> that come before the comparison of the totals: the
  count of signatures, the loop over the inputs and the loop over the outputs.\<close>

definition passesChecks :: "'k lib \<Rightarrow> store \<Rightarrow> transaction \<Rightarrow> bool" where
  "passesChecks L db tx =
     (length (utxoIns tx) = length (signatures tx) \<and>
      checkInputs L db tx (getTransactionHash L (tx\<lparr>signatures := []\<rparr>)) {} (utxoIns tx) = Inr () \<and>
      checkOutputs {} (utxoOuts tx) = Inr ())"

text \<open>The address of the child of a parent key at an index, when the derivation does not
  throw: \<^verbatim>\<open>getChildKeys(parentKey, index).publicKey\<close>.\<close>

definition childAddress :: "'k lib \<Rightarrow> string \<Rightarrow> nat \<Rightarrow> string option" where
  "childAddress L parentKey index =
     (case getChildKeys L parentKey index of Inl e \<Rightarrow> None | Inr derived \<Rightarrow> Some (publicKey derived))"

text \<open>The store has a record at the child address of every index below \<open>i\<close>.\<close>

definition usedBelow :: "'k lib \<Rightarrow> store \<Rightarrow> string \<Rightarrow> nat \<Rightarrow> bool" where
  "usedBelow L db parentKey i =
     list_all (\<lambda>j. case childAddress L parentKey j of
                      None \<Rightarrow> False
                    | Some a \<Rightarrow> db_getUtxo db a \<noteq> None) [0..<i]"

text \<open>The records \<^verbatim>\<open>getBalance\<close> and \<^verbatim>\<open>createTransaction\<close> see in the round of an index:
  the record at the receive address, then the record at the change address, where the
  store has them. \<open>None\<close> when a derivation throws.\<close>

definition recordsAt :: "'k lib \<Rightarrow> client \<Rightarrow> store \<Rightarrow> nat \<Rightarrow> nat \<Rightarrow> utxo list option" where
  "recordsAt L c db account i =
     (case deriveAddresses L c account i of
        Inl e \<Rightarrow> None
      | Inr a \<Rightarrow> Some (toArray (db_getUtxo db (receiveAddress a)) @
                       toArray (db_getUtxo db (changeAddress a))))"

text \<open>The records of the rounds \<open>i, \<dots>, n - 1\<close>, in order.\<close>

definition scanned :: "'k lib \<Rightarrow> client \<Rightarrow> store \<Rightarrow> nat \<Rightarrow> nat \<Rightarrow> nat \<Rightarrow> utxo list" where
  "scanned L c db account i n =
     concat (map (\<lambda>j. case recordsAt L c db account j of None \<Rightarrow> [] | Some us \<Rightarrow> us) [i..<n])"








section \<open>Properties\<close>

subsection \<open>The nonce search\<close>

lemma attempt_simps:
  "attempt (Inl e) f = Inl e"
  "attempt (Inr x) f = f x"
  by (simp_all add: attempt_def)

lemma hashAt_nonce [simp]: "hashAt L (blk\<lparr>nonce := x\<rparr>) n = hashAt L blk n"
  by (simp add: hashAt_def)

lemma findNonce_from_stop:
  "startsWith (hashAt L blk n) p \<Longrightarrow>
   findNonce_from L blk p n =
     Some (blk\<lparr>nonce := Some (base58_encode L (toString n)), blk_id := Some (hashAt L blk n)\<rparr>)"
  by (subst findNonce_from.simps) (simp add: hashAt_def Let_def)

lemma findNonce_from_step:
  "\<not> startsWith (hashAt L blk n) p \<Longrightarrow>
   findNonce_from L blk p n =
     findNonce_from L (blk\<lparr>nonce := Some (base58_encode L (toString n))\<rparr>) p (Suc n)"
  by (subst findNonce_from.simps) (simp add: hashAt_def Let_def)

text \<open>Total correctness: the search returns at the first counter whose hash has the prefix.\<close>

lemma findNonce_from_first:
  "\<forall>j<k. \<not> startsWith (hashAt L blk (n + j)) p \<Longrightarrow> startsWith (hashAt L blk (n + k)) p \<Longrightarrow>
   findNonce_from L blk p n =
     Some (blk\<lparr>nonce := Some (base58_encode L (toString (n + k))),
               blk_id := Some (hashAt L blk (n + k))\<rparr>)"
proof (induction k arbitrary: n blk)
  case 0
  then show ?case using findNonce_from_stop [of L blk n p] by simp
next
  case (Suc k)
  from Suc.prems(1) have first: "\<not> startsWith (hashAt L blk n) p" by force
  let ?b = "blk\<lparr>nonce := Some (base58_encode L (toString n))\<rparr>"
  have "\<forall>j<k. \<not> startsWith (hashAt L ?b (Suc n + j)) p"
    using Suc.prems(1) by (metis Suc_less_eq add_Suc_shift hashAt_nonce)
  moreover have "startsWith (hashAt L ?b (Suc n + k)) p"
    using Suc.prems(2) by simp
  ultimately have "findNonce_from L ?b p (Suc n) =
     Some (?b\<lparr>nonce := Some (base58_encode L (toString (Suc n + k))),
              blk_id := Some (hashAt L ?b (Suc n + k))\<rparr>)"
    by (rule Suc.IH)
  then show ?case using findNonce_from_step [OF first] by simp
qed

text \<open>Partial correctness: whatever the search returns was found at some counter.\<close>

lemma findNonce_from_Some:
  assumes "findNonce_from L blk p n = Some b"
  shows "\<exists>m\<ge>n. startsWith (hashAt L blk m) p \<and>
     b = blk\<lparr>nonce := Some (base58_encode L (toString m)), blk_id := Some (hashAt L blk m)\<rparr>"
  using assms
proof (induct rule: findNonce_from.raw_induct [rotated 1, consumes 1, case_names step])
  case (step f L blk p n b)
  note IH = step(1) and body = step(2)
  show ?case
  proof (cases "startsWith (hashAt L blk n) p")
    case True
    with body show ?thesis by (auto simp: hashAt_def Let_def intro!: exI [of _ n])
  next
    case False
    with body have "f L (blk\<lparr>nonce := Some (base58_encode L (toString n))\<rparr>) p (n + 1) = Some b"
      by (simp add: hashAt_def Let_def)
    from IH [OF this] obtain m where "m \<ge> n + 1" "startsWith (hashAt L blk m) p"
      "b = blk\<lparr>nonce := Some (base58_encode L (toString m)), blk_id := Some (hashAt L blk m)\<rparr>"
      by auto
    then show ?thesis by (intro exI [of _ m]) auto
  qed
qed

lemma findNonce_total:
  assumes "startsWith (hashAt L blk n) (difficultyPrefix d)"
  shows "\<exists>b. findNonce L blk d = Some b"
proof -
  define k where "k = (LEAST k. startsWith (hashAt L blk k) (difficultyPrefix d))"
  have good: "startsWith (hashAt L blk k) (difficultyPrefix d)"
    unfolding k_def using assms by (rule LeastI)
  have "\<forall>j<k. \<not> startsWith (hashAt L blk j) (difficultyPrefix d)"
    unfolding k_def using not_less_Least by blast
  with good show ?thesis
    using findNonce_from_first [of k L blk 0 "difficultyPrefix d"] by (simp add: findNonce_def)
qed

lemma findNonce_prefix:
  assumes "findNonce L blk d = Some b"
  shows "\<exists>m. startsWith (hashAt L blk m) (difficultyPrefix d) \<and>
     b = blk\<lparr>nonce := Some (base58_encode L (toString m)), blk_id := Some (hashAt L blk m)\<rparr>"
  using findNonce_from_Some [of L blk "difficultyPrefix d" 0 b] assms
  unfolding findNonce_def by blast

lemma addBlock_accepts_prefix:
  "addBlock L srv db blk coinbase txs = Inr db' \<Longrightarrow>
   startsWith (getBlockHash L blk) (difficultyPrefix (difficulty srv))"
  by (auto simp: addBlock_def Let_def split: if_splits)

lemma addBlock_rejects_prefix:
  "\<not> startsWith (getBlockHash L blk) (difficultyPrefix (difficulty srv)) \<Longrightarrow>
   addBlock L srv db blk coinbase txs = Inl (ValidationError BadDifficulty)"
  by (simp add: addBlock_def Let_def)

lemma difficultyPrefix_2: "difficultyPrefix 2 = ''11''"
  by code_simp

lemma demo_findNonce: "findNonce demo_lib demo_candidate 2 = Some demo_block"
  by code_simp

lemma demo_addBlock:
  "addBlock demo_lib demo_server empty_store demo_block demo_coinbase [] = Inr demo_store1"
  by code_simp

subsection \<open>Sequencing, mining and block acceptance\<close>

lemma andThen_simps:
  "andThen None f = None"
  "andThen (Some (Inl e)) f = Some (Inl e)"
  "andThen (Some (Inr x)) f = f x"
  by (simp_all add: andThen_def)

lemma andThen_Some_Inr:
  "andThen m f = Some (Inr y) \<Longrightarrow> \<exists>x. m = Some (Inr x) \<and> f x = Some (Inr y)"
  by (auto simp: andThen_def split: option.splits sum.splits)

lemma attempt_Inr:
  "attempt m f = Inr y \<Longrightarrow> \<exists>x. m = Inr x \<and> f x = Inr y"
  by (auto simp: attempt_def split: sum.splits)

text \<open>What a returned result of \<^verbatim>\<open>mine\<close> is made of.\<close>

lemma mine_Some:
  assumes "mine L c db account = Some (Inr m)"
  shows "\<exists>parent pub found.
           getReceiveKeys L (mnemonic c) account = Inr parent \<and>
           nextUnused L db (publicKey parent) = Some (Inr pub) \<and>
           findNonce L (blockCandidate L db (newCoinbase L c pub)) (difficulty c) = Some found \<and>
           m = \<lparr>minedBlock = found\<lparr>blk_id := Some (getBlockHash L found)\<rparr>,
                minedCoinbase = newCoinbase L c pub,
                minedTransactions = map tx_id (unconfirmedTxs db)\<rparr>"
  using assms by (auto simp: mine_def andThen_def split: option.splits sum.splits)

lemma mine_returns:
  assumes "getReceiveKeys L (mnemonic c) account = Inr parent"
    and "nextUnused L db (publicKey parent) = Some (Inr pub)"
    and "findNonce L (blockCandidate L db (newCoinbase L c pub)) (difficulty c) = Some found"
  shows "mine L c db account =
           Some (Inr \<lparr>minedBlock = found\<lparr>blk_id := Some (getBlockHash L found)\<rparr>,
                minedCoinbase = newCoinbase L c pub,
                minedTransactions = map tx_id (unconfirmedTxs db)\<rparr>)"
  using assms by (simp add: mine_def andThen_simps)

lemma newCoinbase_shape:
  "utxoIns (newCoinbase L c pub) = []"
  "utxoOuts (newCoinbase L c pub) = [\<lparr>address = pub, amount = coinbaseAmount c\<rparr>]"
  "signatures (newCoinbase L c pub) = []"
  by (simp_all add: newCoinbase_def Let_def)










subsection \<open>Concrete runs\<close>

lemma demo_createTransaction1:
  "createTransaction demo_lib demo_client demo_store1 0 ''Pr'' 60 = Some (Inr demo_tx1)"
  by code_simp
lemma demo_addTransaction1: "addTransaction demo_lib demo_store1 demo_tx1 = Inr demo_store2"
  by code_simp
lemma demo_createTransaction2:
  "createTransaction demo_lib demo_client demo_store1 0 ''Pq'' 70 = Some (Inr demo_tx2)"
  by code_simp
lemma demo_addTransaction2: "addTransaction demo_lib demo_store2 demo_tx2 = Inr demo_store3"
  by code_simp
lemma demo_mine2:
  "mine demo_lib demo_client demo_store2 0 =
     Some (Inr \<lparr>minedBlock = demo_block2, minedCoinbase = demo_coinbase2,
                minedTransactions = [tx_id demo_tx1]\<rparr>)"
  by code_simp
lemma demo_mine_second:
  "mine demo_lib demo_client demo_store1 0 =
     Some (Inr \<lparr>minedBlock = demo_second_block, minedCoinbase = demo_coinbase2,
                minedTransactions = []\<rparr>)"
  by code_simp
lemma demo_addBlock_second:
  "addBlock demo_lib demo_server demo_store1 demo_second_block demo_coinbase2 [] =
     Inr demo_two_coins"
  by code_simp
lemma demo_createTransaction_first_coin:
  "createTransaction demo_lib demo_client demo_two_coins 0 ''Pr'' 60 = Some (Inr demo_tx1)"
  by code_simp
lemma demo_addTransaction_first_coin:
  "addTransaction demo_lib demo_two_coins demo_tx1 = Inr demo_one_pooled"
  by code_simp
lemma demo_createTransaction_second_coin:
  "createTransaction demo_lib demo_client demo_one_pooled 0 ''Pq'' 70 = Some (Inr demo_tx3)"
  by code_simp
lemma demo_addTransaction_second_coin:
  "addTransaction demo_lib demo_one_pooled demo_tx3 = Inr demo_two_pooled"
  by code_simp
lemma demo_mine_full:
  "mine demo_lib demo_client demo_two_pooled 0 =
     Some (Inr \<lparr>minedBlock = demo_full_block, minedCoinbase = demo_coinbase3,
                minedTransactions = [Some ''TPwppicoPrcPwppcscippwx'',
                                     Some ''TPwppicioPqcPwppcisicippw'']\<rparr>)"
  by code_simp
lemma demo_addBlock_full:
  "accepted (addBlock demo_lib demo_server demo_two_pooled demo_full_block demo_coinbase3
           [TxId ''TPwppicoPrcPwppcscippwx'', TxId ''TPwppicioPqcPwppcisicippw''])"
  by code_simp
lemma demo_limits: "limit demo_client = 2" "limit demo_server = 2"
  by code_simp+

subsection \<open>Transaction acceptance\<close>



lemma spendInputs_others:
  "transactions (spendInputs txId inputs db) = transactions db"
  "blocks (spendInputs txId inputs db) = blocks db"
  by (induction inputs arbitrary: db) (simp_all add: spendInputs_def db_spendUtxos_def)


lemma addTransaction_Inr:
  assumes "addTransaction L db tx = Inr db'"
  shows "passesChecks L db tx \<and> totalInput db (utxoIns tx) \<ge> totalOutput (utxoOuts tx) \<and>
         db' = db_addTransaction (tx\<lparr>tx_block := None\<rparr>) (spendInputs (tx_id tx) (utxoIns tx) db)"
  using assms
  by (auto simp: passesChecks_def addTransaction_def attempt_def split: if_splits sum.splits)


subsection \<open>The scan for an unused address\<close>

lemma usedBelow_Suc:
  "usedBelow L db parentKey (Suc i) \<longleftrightarrow>
     usedBelow L db parentKey i \<and>
     (\<exists>a u. childAddress L parentKey i = Some a \<and> db_getUtxo db a = Some u)"
  by (auto simp: usedBelow_def split: option.splits)

lemma usedBelow_0 [simp]: "usedBelow L db parentKey 0"
  by (simp add: usedBelow_def)

lemma usedBelow_nth:
  "usedBelow L db parentKey i \<Longrightarrow> j < i \<Longrightarrow>
   \<exists>a u. childAddress L parentKey j = Some a \<and> db_getUtxo db a = Some u"
  by (force simp: usedBelow_def list_all_iff split: option.splits)

lemma nextUnused_from_free:
  "childAddress L parentKey i = Some a \<Longrightarrow> db_getUtxo db a = None \<Longrightarrow>
   nextUnused_from L db parentKey i = Some (Inr a)"
  by (subst nextUnused_from.simps) (auto simp: childAddress_def split: sum.splits)

lemma nextUnused_from_used:
  "childAddress L parentKey i = Some a \<Longrightarrow> db_getUtxo db a = Some u \<Longrightarrow>
   nextUnused_from L db parentKey i = nextUnused_from L db parentKey (Suc i)"
  by (subst nextUnused_from.simps) (auto simp: childAddress_def split: sum.splits)

lemma nextUnused_from_thrown:
  "getChildKeys L parentKey i = Inl e \<Longrightarrow> nextUnused_from L db parentKey i = Some (Inl e)"
  by (subst nextUnused_from.simps) simp

text \<open>Total correctness: with records at the indices below \<open>i\<close> and none at \<open>i\<close>, the scan
  returns the address of \<open>i\<close>.\<close>

lemma nextUnused_first:
  assumes "usedBelow L db parentKey i"
    and "childAddress L parentKey i = Some a" and "db_getUtxo db a = None"
  shows "nextUnused L db parentKey = Some (Inr a)"
proof -
  have "k \<le> i \<Longrightarrow> nextUnused_from L db parentKey (i - k) = Some (Inr a)" for k
  proof (induction k)
    case 0
    then show ?case using assms(2,3) by (simp add: nextUnused_from_free)
  next
    case (Suc k)
    then have lt: "i - Suc k < i" and suc: "Suc (i - Suc k) = i - k" by simp_all
    from usedBelow_nth [OF assms(1) lt] obtain a' u where
      "childAddress L parentKey (i - Suc k) = Some a'" "db_getUtxo db a' = Some u" by blast
    then have "nextUnused_from L db parentKey (i - Suc k) = nextUnused_from L db parentKey (i - k)"
      using nextUnused_from_used [of L parentKey "i - Suc k" a' db u] suc by simp
    with Suc show ?case by simp
  qed
  from this [of i] show ?thesis by (simp add: nextUnused_def)
qed

text \<open>Partial correctness: an address the scan returns is the child address of an index
  with no record, and every index below it has one.\<close>

lemma nextUnused_from_Some:
  assumes "nextUnused_from L db parentKey n = Some (Inr a)"
  shows "\<exists>i\<ge>n. childAddress L parentKey i = Some a \<and> db_getUtxo db a = None \<and>
           (\<forall>j. n \<le> j \<and> j < i \<longrightarrow>
              (\<exists>a' u. childAddress L parentKey j = Some a' \<and> db_getUtxo db a' = Some u))"
  using assms
proof (induct L db parentKey n "Inr a :: error + string"
    rule: nextUnused_from.raw_induct [rotated 1, consumes 1, case_names step])
  case (step f L db parentKey n)
  note IH = step(1) and body = step(2)
  from body obtain derived where d: "getChildKeys L parentKey n = Inr derived"
    by (auto split: sum.splits)
  then have ca: "childAddress L parentKey n = Some (publicKey derived)"
    by (simp add: childAddress_def)
  show ?case
  proof (cases "db_getUtxo db (publicKey derived)")
    case None
    with body d have "a = publicKey derived" by simp
    with ca None show ?thesis by (intro exI [of _ n]) auto
  next
    case (Some u)
    with body d have "f L db parentKey (n + 1) = Some (Inr a)" by simp
    from IH [OF this] obtain i where i: "i \<ge> n + 1" "childAddress L parentKey i = Some a"
      "db_getUtxo db a = None"
      "\<forall>j. n + 1 \<le> j \<and> j < i \<longrightarrow>
              (\<exists>a' u. childAddress L parentKey j = Some a' \<and> db_getUtxo db a' = Some u)"
      by blast
    have "\<exists>a' u. childAddress L parentKey j = Some a' \<and> db_getUtxo db a' = Some u"
      if "n \<le> j" "j < i" for j
    proof (cases "j = n")
      case True
      with ca Some show ?thesis by simp
    next
      case False
      with that i(4) show ?thesis by simp
    qed
    with i show ?thesis by (intro exI [of _ i]) auto
  qed
qed

lemma usedBelow_iff:
  "usedBelow L db parentKey i \<longleftrightarrow>
     (\<forall>j<i. \<exists>a u. childAddress L parentKey j = Some a \<and> db_getUtxo db a = Some u)"
  by (force simp: usedBelow_def list_all_iff split: option.splits)

lemma nextUnused_Some:
  assumes "nextUnused L db parentKey = Some (Inr a)"
  shows "\<exists>i. usedBelow L db parentKey i \<and> childAddress L parentKey i = Some a \<and>
             db_getUtxo db a = None"
  using nextUnused_from_Some [of L db parentKey 0 a] assms
  by (auto simp: nextUnused_def usedBelow_iff)

lemma db_getUtxo_None_iff: "db_getUtxo db a = None \<longleftrightarrow> a \<notin> address ` set (utxos db)"
  by (auto simp: db_getUtxo_def find_None_iff)

subsection \<open>What a built transaction is made of\<close>

lemma changeAddressFor_Some:
  assumes "changeAddressFor L c db account change = Some (Inr r)"
  shows "if change > 0
         then \<exists>changeParent a. getChangeKeys L (mnemonic c) account = Inr changeParent \<and>
                nextUnused L db (publicKey changeParent) = Some (Inr a) \<and> r = Some a
         else r = None"
  using assms
  by (auto simp: changeAddressFor_def andThen_def split: if_splits option.splits sum.splits)

lemma buildTransaction_Inr:
  assumes "buildTransaction L c account sel outs = Inr tx"
  shows "\<exists>sigs.
           signInputs L c account
             (getTransactionHash L \<lparr>tx_id = None, utxoIns = ins sel, utxoOuts = outs,
                                     signatures = [], tx_block = None\<rparr>)
             (selectedUtxos sel) = Inr sigs \<and>
           tx = \<lparr>tx_id = Some (getTransactionHash L
                                  \<lparr>tx_id = None, utxoIns = ins sel, utxoOuts = outs,
                                   signatures = sigs, tx_block = None\<rparr>),
                 utxoIns = ins sel, utxoOuts = outs, signatures = sigs, tx_block = None\<rparr>"
  using assms
  by (auto simp: buildTransaction_def Let_def attempt_def split: sum.splits)

lemma createTransaction_Some:
  assumes "createTransaction L c db account addr amt = Some (Inr tx)"
  shows "\<exists>sel changeAddr recipient.
           selectUtxos_from L c db account amt \<lparr>total = 0, selectedUtxos = [], ins = []\<rparr> 0 =
             Some (Inr sel) \<and>
           total sel \<ge> amt \<and>
           changeAddressFor L c db account (total sel - amt) = Some (Inr changeAddr) \<and>
           nextUnused L db addr = Some (Inr recipient) \<and>
           buildTransaction L c account sel
             (\<lparr>address = recipient, amount = amt\<rparr> #
              (case changeAddr of None \<Rightarrow> []
               | Some a \<Rightarrow> [\<lparr>address = a, amount = total sel - amt\<rparr>])) = Inr tx"
  using assms unfolding createTransaction_def
  by (auto simp: andThen_def split: option.splits sum.splits if_splits)

text \<open>The outputs of a built transaction: the recipient's next unused address with the
  requested amount, then, when the selected total exceeds the amount, the sender's next
  unused change address with the difference.\<close>

lemma createTransaction_outputs:
  assumes "createTransaction L c db account addr amt = Some (Inr tx)"
  shows "\<exists>recipient. nextUnused L db addr = Some (Inr recipient) \<and>
           (utxoOuts tx = [\<lparr>address = recipient, amount = amt\<rparr>] \<or>
            (\<exists>changeParent a change.
               getChangeKeys L (mnemonic c) account = Inr changeParent \<and>
               nextUnused L db (publicKey changeParent) = Some (Inr a) \<and> change > 0 \<and>
               utxoOuts tx = [\<lparr>address = recipient, amount = amt\<rparr>,
                              \<lparr>address = a, amount = change\<rparr>]))"
proof -
  from createTransaction_Some [OF assms] obtain sel changeAddr recipient where
    ch: "changeAddressFor L c db account (total sel - amt) = Some (Inr changeAddr)"
    and r: "nextUnused L db addr = Some (Inr recipient)"
    and b: "buildTransaction L c account sel
             (\<lparr>address = recipient, amount = amt\<rparr> #
              (case changeAddr of None \<Rightarrow> []
               | Some a \<Rightarrow> [\<lparr>address = a, amount = total sel - amt\<rparr>])) = Inr tx"
    by blast
  from buildTransaction_Inr [OF b] have outs: "utxoOuts tx = \<lparr>address = recipient, amount = amt\<rparr> #
              (case changeAddr of None \<Rightarrow> []
               | Some a \<Rightarrow> [\<lparr>address = a, amount = total sel - amt\<rparr>])"
    by auto
  show ?thesis
  proof (cases changeAddr)
    case None
    with outs r show ?thesis by auto
  next
    case (Some a)
    with changeAddressFor_Some [OF ch] obtain changeParent where
      "total sel - amt > 0" "getChangeKeys L (mnemonic c) account = Inr changeParent"
      "nextUnused L db (publicKey changeParent) = Some (Inr a)"
      by (auto split: if_splits)
    with outs r Some show ?thesis by auto
  qed
qed

subsection \<open>The balance scan\<close>







lemma getBalance_from_thrown:
  "deriveAddresses L c account i = Inl e \<Longrightarrow>
   getBalance_from L c db account totals i = Some (Inl e)"
  by (subst getBalance_from.simps) simp



lemma scanned_self [simp]: "scanned L c db account n n = []"
  by (simp add: scanned_def)







subsection \<open>The builder's selection\<close>








subsection \<open>From the builder to the validator\<close>










subsection \<open>The toy library has the three properties\<close>













subsection \<open>The claims\<close>

text \<open>
  C4. Every block accepted by \<^verbatim>\<open>addBlock\<close> has a recomputed hash that starts with the
  character \<open>1\<close> repeated \<open>difficulty\<close> times, and a block whose hash lacks the prefix is
  rejected with a validation error; with difficulty 2 a hash starting \<open>11\<close> has the
  prefix and one starting \<open>10\<close> has not. Every block returned by \<^verbatim>\<open>findNonce\<close> is the
  candidate with the nonce of some counter \<open>m\<close> and, as \<^verbatim>\<open>_id\<close>, the hash computed for
  that counter, and this hash has the prefix; and \<^verbatim>\<open>findNonce\<close> does return whenever
  some counter gives a hash with the prefix.
\<close>

theorem C4_difficulty_prefix:
  "(addBlock L srv db blk coinbase txs = Inr db' \<longrightarrow>
      startsWith (getBlockHash L blk) (difficultyPrefix (difficulty srv))) \<and>
   (\<not> startsWith (getBlockHash L blk) (difficultyPrefix (difficulty srv)) \<longrightarrow>
      addBlock L srv db blk coinbase txs = Inl (ValidationError BadDifficulty)) \<and>
   startsWith (''11'' @ rest) (difficultyPrefix 2) \<and>
   \<not> startsWith (''10'' @ rest) (difficultyPrefix 2) \<and>
   (findNonce L cand d = Some b \<longrightarrow>
      (\<exists>m. startsWith (hashAt L cand m) (difficultyPrefix d) \<and>
           b = cand\<lparr>nonce := Some (base58_encode L (toString m)),
                    blk_id := Some (hashAt L cand m)\<rparr>)) \<and>
   (startsWith (hashAt L cand n) (difficultyPrefix d) \<longrightarrow> (\<exists>b. findNonce L cand d = Some b))"
proof (intro conjI impI)
  show "startsWith (''11'' @ rest) (difficultyPrefix 2)"
    by (simp add: difficultyPrefix_2 startsWith_def)
  show "\<not> startsWith (''10'' @ rest) (difficultyPrefix 2)"
    by (simp add: difficultyPrefix_2 startsWith_def)
qed (erule addBlock_accepts_prefix addBlock_rejects_prefix findNonce_prefix findNonce_total)+

theorem C4_difficulty_prefix_witness:
  "(\<exists>db'. addBlock demo_lib demo_server empty_store demo_block demo_coinbase [] = Inr db') \<and>
   startsWith (getBlockHash demo_lib demo_block) (difficultyPrefix (difficulty demo_server)) \<and>
   addBlock demo_lib demo_server empty_store demo_candidate demo_coinbase [] =
     Inl (ValidationError BadDifficulty) \<and>
   findNonce demo_lib demo_candidate 2 = Some demo_block \<and>
   (\<exists>h. blk_id demo_block = Some h \<and> startsWith h (difficultyPrefix 2))"
proof (intro conjI)
  note c4 = C4_difficulty_prefix [where L = demo_lib and srv = demo_server and db = empty_store
      and coinbase = demo_coinbase and txs = "[]" and cand = demo_candidate and d = 2
      and b = demo_block]
  show "\<exists>db'. addBlock demo_lib demo_server empty_store demo_block demo_coinbase [] = Inr db'"
    by (simp add: demo_addBlock)
  show "startsWith (getBlockHash demo_lib demo_block) (difficultyPrefix (difficulty demo_server))"
    by (rule c4 [where blk = demo_block, THEN conjunct1, THEN mp, OF demo_addBlock])
  have "\<not> startsWith (getBlockHash demo_lib demo_candidate) (difficultyPrefix (difficulty demo_server))"
    by code_simp
  then show "addBlock demo_lib demo_server empty_store demo_candidate demo_coinbase [] =
     Inl (ValidationError BadDifficulty)"
    by (rule c4 [where blk = demo_candidate, THEN conjunct2, THEN conjunct1, THEN mp])
  show "findNonce demo_lib demo_candidate 2 = Some demo_block"
    by (rule demo_findNonce)
  have "\<exists>m. startsWith (hashAt demo_lib demo_candidate m) (difficultyPrefix 2) \<and>
          demo_block = demo_candidate\<lparr>nonce := Some (base58_encode demo_lib (toString m)),
                                     blk_id := Some (hashAt demo_lib demo_candidate m)\<rparr>"
    by (rule c4 [THEN conjunct2, THEN conjunct2, THEN conjunct2, THEN conjunct2, THEN conjunct1,
          THEN mp, OF demo_findNonce])
  then obtain m where m: "startsWith (hashAt demo_lib demo_candidate m) (difficultyPrefix 2)"
    and b: "demo_block = demo_candidate\<lparr>nonce := Some (base58_encode demo_lib (toString m)),
                                     blk_id := Some (hashAt demo_lib demo_candidate m)\<rparr>"
    by blast
  from b have "blk_id demo_block = Some (hashAt demo_lib demo_candidate m)"
    by (metis block.select_convs(1) block.surjective block.update_convs(1))
  with m show "\<exists>h. blk_id demo_block = Some h \<and> startsWith h (difficultyPrefix 2)"
    by blast
qed










text \<open>
  C9. The scan for the next unused address visits the child indices 0, 1, 2, ... of the
  parent key: when the store has a record at the child address of every index below
  \<open>i\<close> and none at the child address of \<open>i\<close>, the scan returns that address; and an
  address it returns is the child address of such a first index, so the store has no
  record at it: it is the address of no UTXO in the store. The recipient address and
  the change address of a built transaction, and the reward address of a mined
  coinbase, are results of this scan over the same store.
\<close>

theorem C9_next_unused_address:
  "(usedBelow L db parentKey i \<and> childAddress L parentKey i = Some a \<and> db_getUtxo db a = None \<longrightarrow>
      nextUnused L db parentKey = Some (Inr a)) \<and>
   (nextUnused L db parentKey = Some (Inr a') \<longrightarrow>
      (\<exists>i. usedBelow L db parentKey i \<and> childAddress L parentKey i = Some a') \<and>
      db_getUtxo db a' = None \<and> a' \<notin> address ` set (utxos db)) \<and>
   (createTransaction L c db account addr amt = Some (Inr tx) \<longrightarrow>
      (\<exists>recipient. nextUnused L db addr = Some (Inr recipient) \<and>
           (utxoOuts tx = [\<lparr>address = recipient, amount = amt\<rparr>] \<or>
            (\<exists>changeParent chg change.
               getChangeKeys L (mnemonic c) account = Inr changeParent \<and>
               nextUnused L db (publicKey changeParent) = Some (Inr chg) \<and> change > 0 \<and>
               utxoOuts tx = [\<lparr>address = recipient, amount = amt\<rparr>,
                              \<lparr>address = chg, amount = change\<rparr>])))) \<and>
   (mine L c db account = Some (Inr m) \<longrightarrow>
      (\<exists>parent reward.
          getReceiveKeys L (mnemonic c) account = Inr parent \<and>
          nextUnused L db (publicKey parent) = Some (Inr reward) \<and>
          utxoOuts (minedCoinbase m) = [\<lparr>address = reward, amount = coinbaseAmount c\<rparr>]))"
proof (intro conjI impI)
  assume "usedBelow L db parentKey i \<and> childAddress L parentKey i = Some a \<and> db_getUtxo db a = None"
  then show "nextUnused L db parentKey = Some (Inr a)"
    using nextUnused_first [of L db parentKey i a] by blast
next
  assume r: "nextUnused L db parentKey = Some (Inr a')"
  from nextUnused_Some [OF r]
  show "\<exists>i. usedBelow L db parentKey i \<and> childAddress L parentKey i = Some a'"
    and none: "db_getUtxo db a' = None" by blast+
  from none show "a' \<notin> address ` set (utxos db)"
    by (simp add: db_getUtxo_None_iff)
next
  assume "createTransaction L c db account addr amt = Some (Inr tx)"
  from createTransaction_outputs [OF this]
  show "\<exists>recipient. nextUnused L db addr = Some (Inr recipient) \<and>
           (utxoOuts tx = [\<lparr>address = recipient, amount = amt\<rparr>] \<or>
            (\<exists>changeParent chg change.
               getChangeKeys L (mnemonic c) account = Inr changeParent \<and>
               nextUnused L db (publicKey changeParent) = Some (Inr chg) \<and> change > 0 \<and>
               utxoOuts tx = [\<lparr>address = recipient, amount = amt\<rparr>,
                              \<lparr>address = chg, amount = change\<rparr>]))" .
next
  assume "mine L c db account = Some (Inr m)"
  from mine_Some [OF this] obtain parent pub where
    "getReceiveKeys L (mnemonic c) account = Inr parent"
    "nextUnused L db (publicKey parent) = Some (Inr pub)"
    "minedCoinbase m = newCoinbase L c pub" by auto
  then show "\<exists>parent reward.
          getReceiveKeys L (mnemonic c) account = Inr parent \<and>
          nextUnused L db (publicKey parent) = Some (Inr reward) \<and>
          utxoOuts (minedCoinbase m) = [\<lparr>address = reward, amount = coinbaseAmount c\<rparr>]"
    by (auto simp: newCoinbase_shape)
qed

theorem C9_next_unused_address_witness:
  "usedBelow demo_lib demo_store2 ''Pwppi'' 1 \<and>
   childAddress demo_lib ''Pwppi'' 0 = Some ''Pwppic'' \<and>
   childAddress demo_lib ''Pwppi'' 1 = Some ''Pwppici'' \<and>
   db_getUtxo demo_store2 ''Pwppici'' = None \<and>
   nextUnused demo_lib demo_store2 ''Pwppi'' = Some (Inr ''Pwppici'') \<and>
   ''Pwppici'' \<notin> address ` set (utxos demo_store2) \<and>
   createTransaction demo_lib demo_client demo_store1 0 ''Pr'' 60 = Some (Inr demo_tx1) \<and>
   nextUnused demo_lib demo_store1 ''Pr'' = Some (Inr ''Prc'') \<and>
   mine demo_lib demo_client demo_store2 0 =
     Some (Inr \<lparr>minedBlock = demo_block2, minedCoinbase = demo_coinbase2,
                minedTransactions = [tx_id demo_tx1]\<rparr>)"
proof -
  note c9 = C9_next_unused_address [where L = demo_lib]
  have u: "usedBelow demo_lib demo_store2 ''Pwppi'' 1" by code_simp
  have c0: "childAddress demo_lib ''Pwppi'' 0 = Some ''Pwppic''" by code_simp
  have c1: "childAddress demo_lib ''Pwppi'' 1 = Some ''Pwppici''" by code_simp
  have f: "db_getUtxo demo_store2 ''Pwppici'' = None" by code_simp
  have n: "nextUnused demo_lib demo_store2 ''Pwppi'' = Some (Inr ''Pwppici'')"
    using c9 [where db = demo_store2 and parentKey = "''Pwppi''" and i = 1 and a = "''Pwppici''",
        THEN conjunct1] u c1 f by fast
  have notin: "''Pwppici'' \<notin> address ` set (utxos demo_store2)"
    using c9 [where db = demo_store2 and parentKey = "''Pwppi''" and a' = "''Pwppici''",
        THEN conjunct2, THEN conjunct1] n by fast
  obtain recipient where r: "nextUnused demo_lib demo_store1 ''Pr'' = Some (Inr recipient)"
    and outs: "utxoOuts demo_tx1 = [\<lparr>address = recipient, amount = 60\<rparr>] \<or>
       (\<exists>changeParent chg change. utxoOuts demo_tx1 = [\<lparr>address = recipient, amount = 60\<rparr>,
                              \<lparr>address = chg, amount = change\<rparr>])"
    using c9 [where db = demo_store1 and c = demo_client and account = 0 and addr = "''Pr''"
        and amt = 60 and tx = demo_tx1, THEN conjunct2, THEN conjunct2, THEN conjunct1]
      demo_createTransaction1 by fast
  from outs have "recipient = ''Prc''" by (auto simp: demo_tx1_def)
  with r have r': "nextUnused demo_lib demo_store1 ''Pr'' = Some (Inr ''Prc'')" by simp
  show ?thesis
    by (rule conjI [OF u conjI [OF c0 conjI [OF c1 conjI [OF f conjI [OF n conjI [OF notin
          conjI [OF demo_createTransaction1 conjI [OF r' demo_mine2]]]]]]]])
qed






text \<open>
  C1. \<^verbatim>\<open>addTransaction\<close> looks each input up and throws when the store has no record for
  it, but it never reads the \<^verbatim>\<open>txIn\<close> of the record it finds. On the ledger with one
  confirmed coin, the payment of 60 is accepted and marks the coin spent; the payment of
  70, a different transaction that the client built before the first was pooled and
  that names the same coin as its input, is then accepted too, against the store in which the coin already records its spender, and the record
  is rewritten with the second spender.
\<close>

theorem C1_double_spend_accepted:
  "addTransaction demo_lib demo_store1 demo_tx1 = Inr demo_store2 \<and>
   db_getUtxo demo_store2 ''Pwppic'' =
     Some \<lparr>address = ''Pwppic'', amount = 100, block = Some ''11mwppics'',
           txIn = Some ''TPwppicoPrcPwppcscippwx''\<rparr> \<and>
   createTransaction demo_lib demo_client demo_store1 0 ''Pq'' 70 = Some (Inr demo_tx2) \<and>
   utxoIns demo_tx1 = [''Pwppic''] \<and> utxoIns demo_tx2 = [''Pwppic''] \<and>
   tx_id demo_tx1 \<noteq> tx_id demo_tx2 \<and>
   addTransaction demo_lib demo_store2 demo_tx2 = Inr demo_store3 \<and>
   db_getUtxo demo_store3 ''Pwppic'' =
     Some \<lparr>address = ''Pwppic'', amount = 100, block = Some ''11mwppics'',
           txIn = Some ''TPwppicoPqcPwppcscippwx''\<rparr> \<and>
   transactions demo_store3 =
     [demo_coinbase\<lparr>tx_block := Some ''11mwppics''\<rparr>, demo_tx1, demo_tx2]"
proof -
  have u2: "db_getUtxo demo_store2 ''Pwppic'' =
     Some \<lparr>address = ''Pwppic'', amount = 100, block = Some ''11mwppics'',
           txIn = Some ''TPwppicoPrcPwppcscippwx''\<rparr>"
    by code_simp
  have u3: "db_getUtxo demo_store3 ''Pwppic'' =
     Some \<lparr>address = ''Pwppic'', amount = 100, block = Some ''11mwppics'',
           txIn = Some ''TPwppicoPqcPwppcscippwx''\<rparr>"
    by code_simp
  have ins: "utxoIns demo_tx1 = [''Pwppic'']" "utxoIns demo_tx2 = [''Pwppic'']"
    by (simp_all add: demo_tx1_def demo_tx2_def)
  have ids: "tx_id demo_tx1 \<noteq> tx_id demo_tx2"
    by (simp add: demo_tx1_def demo_tx2_def)
  have pool: "transactions demo_store3 =
     [demo_coinbase\<lparr>tx_block := Some ''11mwppics''\<rparr>, demo_tx1, demo_tx2]"
    by (simp add: demo_store3_def)
  show ?thesis
    by (intro conjI demo_addTransaction1 u2 demo_createTransaction2 ins ids
        demo_addTransaction2 u3 pool)
qed

text \<open>
  C7. The constructors store \<^verbatim>\<open>limit\<close>, and nothing reads it: \<^verbatim>\<open>addBlock\<close> and \<^verbatim>\<open>mine\<close>
  return the same for every value of the limit. \<^verbatim>\<open>mine\<close> takes the first 100 pooled
  transactions, and \<^verbatim>\<open>addBlock\<close> does not count the transactions of a block. With the
  limit 2 on both sides and two payments in the pool, \<^verbatim>\<open>mine\<close> returns a block over both
  payments and the coinbase, three transactions, and \<^verbatim>\<open>addBlock\<close> accepts it.
\<close>

theorem C7_block_limit_not_enforced:
  "addBlock L (srv\<lparr>limit := k\<rparr>) db blk coinbase txs = addBlock L srv db blk coinbase txs \<and>
   mine L (c\<lparr>limit := k\<rparr>) db account = mine L c db account \<and>
   limit demo_client = 2 \<and> limit demo_server = 2 \<and>
   map tx_id (unconfirmedTxs demo_two_pooled) =
     [Some ''TPwppicoPrcPwppcscippwx'', Some ''TPwppicioPqcPwppcisicippw''] \<and>
   mine demo_lib demo_client demo_two_pooled 0 =
     Some (Inr \<lparr>minedBlock = demo_full_block, minedCoinbase = demo_coinbase3,
                minedTransactions = [Some ''TPwppicoPrcPwppcscippwx'',
                                     Some ''TPwppicioPqcPwppcisicippw'']\<rparr>) \<and>
   root demo_full_block =
     getMerkleRoot demo_lib [Some ''ToPwppiciis'', Some ''TPwppicoPrcPwppcscippwx'',
                             Some ''TPwppicioPqcPwppcisicippw''] \<and>
   accepted (addBlock demo_lib demo_server demo_two_pooled demo_full_block demo_coinbase3
           [TxId ''TPwppicoPrcPwppcscippwx'', TxId ''TPwppicioPqcPwppcisicippw''])"
proof -
  have server: "addBlock L (srv\<lparr>limit := k\<rparr>) db blk coinbase txs =
                addBlock L srv db blk coinbase txs"
  proof -
    have "difficulty (srv\<lparr>limit := k\<rparr>) = difficulty srv"
      and "coinbaseAmount (srv\<lparr>limit := k\<rparr>) = coinbaseAmount srv"
      by simp_all
    then show ?thesis by (simp only: addBlock_def)
  qed
  have miner: "mine L (c\<lparr>limit := k\<rparr>) db account = mine L c db account"
  proof -
    have "difficulty (c\<lparr>limit := k\<rparr>) = difficulty c"
      and "mnemonic (c\<lparr>limit := k\<rparr>) = mnemonic c"
      and "\<And>pub. newCoinbase L (c\<lparr>limit := k\<rparr>) pub = newCoinbase L c pub"
      by (simp_all add: newCoinbase_def)
    then show ?thesis by (simp only: mine_def)
  qed
  have pool: "map tx_id (unconfirmedTxs demo_two_pooled) =
     [Some ''TPwppicoPrcPwppcscippwx'', Some ''TPwppicioPqcPwppcisicippw'']"
    by code_simp
  have r: "root demo_full_block =
     getMerkleRoot demo_lib [Some ''ToPwppiciis'', Some ''TPwppicoPrcPwppcscippwx'',
                             Some ''TPwppicioPqcPwppcisicippw'']"
    by code_simp
  show ?thesis
    by (intro conjI server miner demo_limits pool demo_mine_full r demo_addBlock_full)
qed

theorem C7_block_limit_not_enforced_witness:
  "accepted (addBlock demo_lib (demo_server\<lparr>limit := 1\<rparr>) demo_two_pooled demo_full_block
           demo_coinbase3
           [TxId ''TPwppicoPrcPwppcscippwx'', TxId ''TPwppicioPqcPwppcisicippw'']) \<and>
   mine demo_lib (demo_client\<lparr>limit := 1\<rparr>) demo_two_pooled 0 =
     Some (Inr \<lparr>minedBlock = demo_full_block, minedCoinbase = demo_coinbase3,
                minedTransactions = [Some ''TPwppicoPrcPwppcscippwx'',
                                     Some ''TPwppicioPqcPwppcisicippw'']\<rparr>)"
proof -
  let ?txs = "[TxId ''TPwppicoPrcPwppcscippwx'', TxId ''TPwppicioPqcPwppcisicippw'']"
  note c7 = C7_block_limit_not_enforced [where L = demo_lib and srv = demo_server and k = 1
      and db = demo_two_pooled and blk = demo_full_block and coinbase = demo_coinbase3
      and txs = ?txs and c = demo_client and account = 0]
  from c7 have server: "addBlock demo_lib (demo_server\<lparr>limit := 1\<rparr>) demo_two_pooled
      demo_full_block demo_coinbase3 ?txs =
    addBlock demo_lib demo_server demo_two_pooled demo_full_block demo_coinbase3 ?txs"
    by (rule conjunct1)
  from c7 have miner: "mine demo_lib (demo_client\<lparr>limit := 1\<rparr>) demo_two_pooled 0 =
      mine demo_lib demo_client demo_two_pooled 0"
    by (rule conjunct2 [THEN conjunct1])
  show ?thesis
    unfolding server miner by (intro conjI demo_addBlock_full demo_mine_full)
qed

end
